theory Spec2Isabelle
  imports Complex_Main "HOL-Library.Char_ord" "HOL-Library.List_Lexorder"
    "HOL-Library.Product_Lexorder"
begin

section \<open>Calendar utility\<close>

text \<open>
  The two local helpers of \<^verbatim>\<open>Home.py\<close>, \<^verbatim>\<open>get_dias_ano\<close> (inside
  \<^verbatim>\<open>processar_dados_complexos\<close>) and \<^verbatim>\<open>get_dias_ano_teste\<close> (inside
  \<^verbatim>\<open>executar_teste_estabilidade\<close>):
  \<^verbatim>\<open>return 366 if (ano % 4 == 0 and ano % 100 != 0) or (ano % 400 == 0) else 365\<close>.
  Python's \<^verbatim>\<open>%\<close> on integers is the floored remainder, which is \<open>mod\<close> on \<open>int\<close>.
\<close>

definition get_dias_ano :: "int \<Rightarrow> int" where
  "get_dias_ano ano =
     (if (ano mod 4 = 0 \<and> ano mod 100 \<noteq> 0) \<or> ano mod 400 = 0 then 366 else 365)"

definition get_dias_ano_teste :: "int \<Rightarrow> int" where
  "get_dias_ano_teste ano =
     (if (ano mod 4 = 0 \<and> ano mod 100 \<noteq> 0) \<or> ano mod 400 = 0 then 366 else 365)"

section \<open>Tables\<close>

text \<open>
  The input is a \<^verbatim>\<open>pandas.DataFrame\<close> read from a CSV file. It is modelled by the list of
  its column names and the list of its rows. A row carries the four identifying columns
  \<^verbatim>\<open>EstacaoCodigo\<close>, \<^verbatim>\<open>estado\<close>, \<^verbatim>\<open>Ano\<close>, \<^verbatim>\<open>Mes\<close> and the daily rainfall cells, looked
  up by column name (\<open>None\<close> is a missing value, NaN). The identifying columns are taken
  to hold values: integers for the station code, the year and the month, a string for the
  state. Reading a column that is not in \<open>columns\<close> raises \<^verbatim>\<open>KeyError\<close>; the value a row
  holds for such a column is never read.
\<close>

datatype erro = KeyError | ValueError | IndexError

record chave =
  EstacaoCodigo :: int
  Ano :: int

record ids = chave +
  estado :: string
  Mes :: int

record linha = ids +
  Chuva :: "string \<Rightarrow> rat option"

record dataframe =
  columns :: "string list"
  linhas :: "linha list"

text \<open>
  \<^verbatim>\<open>DataFrame.drop_duplicates(subset=...)\<close> keeps the first row of every key and the
  order of the rows; \<open>cols\<close> reads the key columns of a row.
\<close>

fun drop_duplicates :: "('a \<Rightarrow> 'k) \<Rightarrow> 'a list \<Rightarrow> 'a list" where
  "drop_duplicates cols [] = []"
| "drop_duplicates cols (x # xs) =
     x # drop_duplicates cols (filter (\<lambda>y. cols y \<noteq> cols x) xs)"

section \<open>Sampler\<close>

text \<open>
  Rounding to the nearest integer, ties to the even neighbour: Python's \<^verbatim>\<open>round\<close> and
  numpy's \<^verbatim>\<open>round\<close>. Floating-point numbers are modelled by exact rationals.
\<close>

definition round_half_even :: "rat \<Rightarrow> int" where
  "round_half_even x =
     (let f = \<lfloor>x\<rfloor>; r = x - of_int f in
      if r < 1 / 2 then f else if 1 / 2 < r then f + 1 else if even f then f else f + 1)"

text \<open>
  The pseudo-random generator of numpy is a parameter of the model: \<open>RandomState seed\<close>
  is the state of a generator created from a seed, and \<open>permutation g n\<close> draws a
  permutation of \<open>0..<n\<close> and returns the advanced state.
  \<^verbatim>\<open>RandomState.choice(n, size=k, replace=False)\<close>, which pandas calls for every group,
  is the first \<open>k\<close> entries of \<open>permutation n\<close>.
\<close>

record 'g gerador =
  RandomState :: "int \<Rightarrow> 'g"
  permutation :: "'g \<Rightarrow> nat \<Rightarrow> nat list \<times> 'g"

definition gerador_ok :: "'g gerador \<Rightarrow> bool" where
  "gerador_ok G = (\<forall>g n. distinct (fst (permutation G g n)) \<and> set (fst (permutation G g n)) = {0..<n})"

text \<open>
  The loop of \<^verbatim>\<open>DataFrameGroupBy.sample(frac=..., random_state=...)\<close> over the groups:
  \<^verbatim>\<open>sample_size = round(frac * group_size)\<close>, one \<^verbatim>\<open>choice\<close> per group from the one
  generator, and the chosen rows of all groups concatenated. An index outside the group
  would raise \<^verbatim>\<open>IndexError\<close>.
\<close>

fun sample_grupos ::
  "'g gerador \<Rightarrow> 'g \<Rightarrow> rat \<Rightarrow> (string \<times> int) list list \<Rightarrow> erro + (string \<times> int) list" where
  "sample_grupos G g fracao [] = Inr []"
| "sample_grupos G g fracao (grp # resto) =
     (let group_size = length grp;
          sample_size = nat (round_half_even (fracao * of_nat group_size));
          grp_sample = take sample_size (fst (permutation G g group_size))
      in if \<exists>i \<in> set grp_sample. group_size \<le> i then Inl IndexError
         else (case sample_grupos G (snd (permutation G g group_size)) fracao resto of
                 Inl e \<Rightarrow> Inl e
               | Inr s \<Rightarrow> Inr (map (\<lambda>i. grp ! i) grp_sample @ s)))"

text \<open>
  \<^verbatim>\<open>estacoes_unicas.groupby('estado').sample(frac=sample_frac, random_state=seed)\<close>.
  An empty table is returned as it is; otherwise pandas rejects \<^verbatim>\<open>frac > 1\<close> (sampling
  without replacement) and \<^verbatim>\<open>frac < 0\<close> with \<^verbatim>\<open>ValueError\<close> before it creates the
  generator. The groups are visited in the sorted order of their keys.
\<close>

definition groupby_estado :: "(string \<times> int) list \<Rightarrow> (string \<times> int) list list" where
  "groupby_estado estacoes_unicas =
     map (\<lambda>k. filter (\<lambda>p. fst p = k) estacoes_unicas) (sort (remdups (map fst estacoes_unicas)))"

definition groupby_estado_sample ::
  "'g gerador \<Rightarrow> int \<Rightarrow> rat \<Rightarrow> (string \<times> int) list \<Rightarrow> erro + (string \<times> int) list" where
  "groupby_estado_sample G random_state fracao estacoes_unicas =
     (if estacoes_unicas = [] then Inr []
      else if 1 < fracao then Inl ValueError
      else if fracao < 0 then Inl ValueError
      else sample_grupos G (RandomState G random_state) fracao (groupby_estado estacoes_unicas))"

text \<open>
  Lines 76-77 and 249-250:
  \<^verbatim>\<open>estacoes_unicas = df_input[['estado', 'EstacaoCodigo']].drop_duplicates()\<close>
  followed by the stratified sample.
\<close>

definition estacoes_unicas :: "dataframe \<Rightarrow> (string \<times> int) list" where
  "estacoes_unicas df_input =
     drop_duplicates id (map (\<lambda>r. (estado r, EstacaoCodigo r)) (linhas df_input))"

definition amostragem ::
  "'g gerador \<Rightarrow> int \<Rightarrow> dataframe \<Rightarrow> rat \<Rightarrow> erro + (string \<times> int) list" where
  "amostragem G random_state df_input sample_frac =
     (if ''estado'' \<notin> set (columns df_input) \<or> ''EstacaoCodigo'' \<notin> set (columns df_input)
      then Inl KeyError
      else groupby_estado_sample G random_state sample_frac (estacoes_unicas df_input))"

text \<open>
  Line 45: the fraction is the position of a slider that ranges over 1..100, divided
  by 100.
\<close>

definition porcentagem_amostra :: "int \<Rightarrow> rat" where
  "porcentagem_amostra slider = of_int slider / 100"

section \<open>Record normalizer\<close>

text \<open>
  Line 88: \<^verbatim>\<open>colunas_chuva = [f'Chuva{i:02d}' for i in range(1, 32)]\<close>, and line 91:
  the ones among them that are columns of the table.
\<close>

definition digito :: "nat \<Rightarrow> char" where
  "digito n = char_of (48 + n)"

fun str_nat :: "nat \<Rightarrow> string" where
  "str_nat n = (if n < 10 then [digito n] else str_nat (n div 10) @ [digito (n mod 10)])"

declare str_nat.simps [simp del]

definition fmt_02d :: "nat \<Rightarrow> string" where
  "fmt_02d i = (let s = str_nat i in replicate (2 - length s) (CHR ''0'') @ s)"

definition colunas_chuva :: "string list" where
  "colunas_chuva = map (\<lambda>i. ''Chuva'' @ fmt_02d i) [1..<32]"

definition colunas_existentes :: "string list \<Rightarrow> string list" where
  "colunas_existentes cols = filter (\<lambda>c. c \<in> set cols) colunas_chuva"

text \<open>
  Lines 93-98: \<^verbatim>\<open>melt\<close> stacks the value columns one after the other, each with all rows
  of the table in their order. The identifying columns are copied, the column name goes to
  \<^verbatim>\<open>Dia_str\<close> and the cell to \<^verbatim>\<open>Valor\<close>.
\<close>

record melted = ids +
  Dia_str :: string
  Valor :: "rat option"

definition melt :: "string list \<Rightarrow> linha list \<Rightarrow> melted list" where
  "melt value_vars df_amostra =
     concat (map (\<lambda>c. map (\<lambda>r. \<lparr>EstacaoCodigo = EstacaoCodigo r, Ano = Ano r,
                                  estado = estado r, Mes = Mes r,
                                  Dia_str = c, Valor = Chuva r c\<rparr>) df_amostra) value_vars)"

text \<open>
  Line 102: \<^verbatim>\<open>df_melted['Dia_str'].str.replace('Chuva', '').astype(int)\<close>. The replacement
  removes every occurrence of the pattern; the conversion reads a non-empty string of
  decimal digits (the only strings that reach it are two digits) and raises
  \<^verbatim>\<open>ValueError\<close> on anything else.
\<close>

function str_replace_vazio :: "string \<Rightarrow> string \<Rightarrow> string" where
  "str_replace_vazio pat [] = []"
| "str_replace_vazio pat (c # cs) =
     (if pat \<noteq> [] \<and> take (length pat) (c # cs) = pat
      then str_replace_vazio pat (drop (length pat) (c # cs))
      else c # str_replace_vazio pat cs)"
  by pat_completeness auto
termination
  by (relation "measure (\<lambda>(pat, s). length s)") auto

definition valor_digito :: "char \<Rightarrow> nat option" where
  "valor_digito c =
     (let n = (of_char c :: nat) in if 48 \<le> n \<and> n \<le> 57 then Some (n - 48) else None)"

fun ler_digitos :: "nat \<Rightarrow> string \<Rightarrow> nat option" where
  "ler_digitos acc [] = Some acc"
| "ler_digitos acc (c # cs) =
     (case valor_digito c of None \<Rightarrow> None | Some d \<Rightarrow> ler_digitos (10 * acc + d) cs)"

definition astype_int :: "string \<Rightarrow> int option" where
  "astype_int s = (if s = [] then None else map_option int (ler_digitos 0 s))"

record com_dia = melted +
  Dia :: int

fun converter_Dia :: "melted list \<Rightarrow> erro + com_dia list" where
  "converter_Dia [] = Inr []"
| "converter_Dia (r # rs) =
     (case astype_int (str_replace_vazio ''Chuva'' (Dia_str r)) of
        None \<Rightarrow> Inl ValueError
      | Some d \<Rightarrow>
          (case converter_Dia rs of
             Inl e \<Rightarrow> Inl e
           | Inr ds \<Rightarrow> Inr (\<lparr>EstacaoCodigo = EstacaoCodigo r, Ano = Ano r,
                               estado = estado r, Mes = Mes r,
                               Dia_str = Dia_str r, Valor = Valor r, Dia = d\<rparr> # ds)))"

text \<open>
  Lines 105-108: \<^verbatim>\<open>pd.to_datetime(dict(year=..., month=..., day=...), errors='coerce')\<close>.
  A timestamp at midnight is modelled by its day number, the count of days since
  1970-01-01 in the proleptic Gregorian calendar. The call is modelled by its documented
  contract: the three components give a timestamp when they name a calendar date that a
  nanosecond timestamp can hold (1677-09-22 to 2262-04-11); anything else is coerced to
  NaT, here \<open>None\<close>.
\<close>

definition days_in_month :: "int \<Rightarrow> int \<Rightarrow> int" where
  "days_in_month y m =
     (if m = 2 then (if (y mod 4 = 0 \<and> y mod 100 \<noteq> 0) \<or> y mod 400 = 0 then 29 else 28)
      else if m = 4 \<or> m = 6 \<or> m = 9 \<or> m = 11 then 30 else 31)"

definition days_from_civil :: "int \<Rightarrow> int \<Rightarrow> int \<Rightarrow> int" where
  "days_from_civil y m d =
     (let y' = (if m \<le> 2 then y - 1 else y);
          era = y' div 400;
          yoe = y' - era * 400;
          doy = (153 * (if 2 < m then m - 3 else m + 9) + 2) div 5 + d - 1;
          doe = yoe * 365 + yoe div 4 - yoe div 100 + doy
      in era * 146097 + doe - 719468)"

definition to_datetime :: "int \<Rightarrow> int \<Rightarrow> int \<Rightarrow> int option" where
  "to_datetime year month day =
     (if 1 \<le> month \<and> month \<le> 12 \<and> 1 \<le> day \<and> day \<le> days_in_month year month
      then (let n = days_from_civil year month day
            in if - 106751 \<le> n \<and> n \<le> 106751 then Some n else None)
      else None)"

text \<open>
  Lines 105-111: the column \<^verbatim>\<open>Data_Real\<close> is added and the rows whose date is NaT are
  dropped, so that every remaining row holds a day number.
\<close>

record diario = com_dia +
  Data_Real :: int

definition criar_Data_Real :: "com_dia list \<Rightarrow> diario list" where
  "criar_Data_Real df_melted =
     List.map_filter (\<lambda>r. case to_datetime (Ano r) (Mes r) (Dia r) of
         None \<Rightarrow> None
       | Some n \<Rightarrow> Some \<lparr>EstacaoCodigo = EstacaoCodigo r, Ano = Ano r,
                          estado = estado r, Mes = Mes r,
                          Dia_str = Dia_str r, Valor = Valor r, Dia = Dia r,
                          Data_Real = n\<rparr>) df_melted"

text \<open>
  Lines 83-111 and 256-280. The month-level deduplication reads \<^verbatim>\<open>EstacaoCodigo\<close>,
  \<^verbatim>\<open>Ano\<close> and \<^verbatim>\<open>Mes\<close> and raises \<^verbatim>\<open>KeyError\<close> when one of them is not a column (on
  an empty table the same error comes from \<^verbatim>\<open>melt\<close>, whose \<^verbatim>\<open>id_vars\<close> name them);
  \<^verbatim>\<open>melt\<close> raises \<^verbatim>\<open>KeyError\<close> when one of its \<^verbatim>\<open>id_vars\<close> is not a column. The
  pipeline melts with \<open>id_vars_processar\<close>, the stability test with \<open>id_vars_teste\<close>.
  The result is the table of dated observations before the day-level deduplication, with
  the number of rows the month-level deduplication removed (the number printed in
  \<^verbatim>\<open>msg_duplicatas_mes\<close>).
\<close>

definition id_vars_processar :: "string list" where
  "id_vars_processar = [''EstacaoCodigo'', ''estado'', ''Ano'', ''Mes'']"

definition id_vars_teste :: "string list" where
  "id_vars_teste = [''EstacaoCodigo'', ''Ano'', ''Mes'']"

definition datas_validas ::
  "string list \<Rightarrow> string list \<Rightarrow> linha list \<Rightarrow> erro + (diario list \<times> int)" where
  "datas_validas id_vars cols df_amostra0 =
     (if ''EstacaoCodigo'' \<notin> set cols \<or> ''Ano'' \<notin> set cols \<or> ''Mes'' \<notin> set cols
      then Inl KeyError
      else if \<not> set id_vars \<subseteq> set cols then Inl KeyError
      else
        (let linhas_antes = length df_amostra0;
             df_amostra = drop_duplicates (\<lambda>r. (EstacaoCodigo r, Ano r, Mes r)) df_amostra0;
             msg_duplicatas_mes = int linhas_antes - int (length df_amostra);
             df_melted = filter (\<lambda>r. Valor r \<noteq> None) (melt (colunas_existentes cols) df_amostra)
         in case converter_Dia df_melted of
              Inl e \<Rightarrow> Inl e
            | Inr df_dia \<Rightarrow> Inr (criar_Data_Real df_dia, msg_duplicatas_mes)))"

text \<open>
  Lines 113-116: the day-level deduplication on \<^verbatim>\<open>(EstacaoCodigo, Data_Real)\<close>, with the
  number of rows it removed (the number printed in \<^verbatim>\<open>msg_duplicatas_dia\<close>).
\<close>

definition limpar ::
  "string list \<Rightarrow> string list \<Rightarrow> linha list \<Rightarrow> erro + (diario list \<times> int \<times> int)" where
  "limpar id_vars cols df_amostra0 =
     (case datas_validas id_vars cols df_amostra0 of
        Inl e \<Rightarrow> Inl e
      | Inr (df_datas, msg_duplicatas_mes) \<Rightarrow>
          (let len_antes_dia = length df_datas;
               df_melted = drop_duplicates (\<lambda>r. (EstacaoCodigo r, Data_Real r)) df_datas;
               msg_duplicatas_dia = int len_antes_dia - int (length df_melted)
           in Inr (df_melted, msg_duplicatas_mes, msg_duplicatas_dia)))"

text \<open>
  Line 119: \<^verbatim>\<open>df_melted.sort_values(['EstacaoCodigo', 'Data_Real'])\<close>. The result of
  lines 83-119 is the normalized sequence of observations.
\<close>

definition normalizar :: "string list \<Rightarrow> linha list \<Rightarrow> erro + (diario list \<times> int \<times> int)" where
  "normalizar cols df_amostra0 =
     (case limpar id_vars_processar cols df_amostra0 of
        Inl e \<Rightarrow> Inl e
      | Inr (df_melted, msg_duplicatas_mes, msg_duplicatas_dia) \<Rightarrow>
          Inr (sort_key (\<lambda>r. (EstacaoCodigo r, Data_Real r)) df_melted,
               msg_duplicatas_mes, msg_duplicatas_dia))"

text \<open>
  Line 80 and line 253: the rows of the input whose station code is among the sampled ones.
\<close>

definition isin_sorteadas :: "(string \<times> int) list \<Rightarrow> linha list \<Rightarrow> linha list" where
  "isin_sorteadas estacoes_sorteadas df =
     filter (\<lambda>r. EstacaoCodigo r \<in> set (map snd estacoes_sorteadas)) df"

section \<open>Metric aggregator\<close>

text \<open>
  Line 122: \<^verbatim>\<open>df_melted.groupby(['EstacaoCodigo', 'Ano'])\<close>. The groups come in the sorted
  order of their keys; each holds its rows in the order of the table. A table indexed by
  the group keys is modelled by a list of pairs of a key and the columns of its row.
\<close>

definition grupos :: "diario list \<Rightarrow> ((int \<times> int) \<times> diario list) list" where
  "grupos df_melted =
     map (\<lambda>k. (k, filter (\<lambda>r. (EstacaoCodigo r, Ano r) = k) df_melted))
       (sort (remdups (map (\<lambda>r. (EstacaoCodigo r, Ano r)) df_melted)))"

text \<open>
  Line 125: \<^verbatim>\<open>grupos['Data_Real'].diff().dt.days\<close>. Within a group the first row has no
  predecessor and gets NaN; every other row gets the number of days since the row before it.
\<close>

fun diff_dias :: "int list \<Rightarrow> int option list" where
  "diff_dias [] = []"
| "diff_dias (x # xs) = None # map (\<lambda>(a, b). Some (b - a)) (zip (x # xs) xs)"

text \<open>
  Lines 127-131: \<^verbatim>\<open>max\<close>, \<^verbatim>\<open>mean\<close> and \<^verbatim>\<open>min\<close> of a group skip NaN and are NaN when
  nothing is left; \<^verbatim>\<open>fillna(0)\<close> then replaces NaN by 0. The columns of a row are
  \<^verbatim>\<open>(Intervalo_Max, Intervalo_Medio, Intervalo_Min)\<close>.
\<close>

definition notna :: "int option list \<Rightarrow> int list" where
  "notna vs = List.map_filter id vs"

definition agg_max :: "int option list \<Rightarrow> rat option" where
  "agg_max vs = (if notna vs = [] then None else Some (of_int (Max (set (notna vs)))))"

definition agg_min :: "int option list \<Rightarrow> rat option" where
  "agg_min vs = (if notna vs = [] then None else Some (of_int (Min (set (notna vs)))))"

definition agg_mean :: "int option list \<Rightarrow> rat option" where
  "agg_mean vs =
     (if notna vs = [] then None
      else Some (of_int (sum_list (notna vs)) / of_nat (length (notna vs))))"

definition fillna0 :: "rat option \<Rightarrow> rat" where
  "fillna0 v = (case v of None \<Rightarrow> 0 | Some x \<Rightarrow> x)"

definition resumo_intervalos :: "diario list \<Rightarrow> ((int \<times> int) \<times> rat \<times> rat \<times> rat) list" where
  "resumo_intervalos df_melted =
     map (\<lambda>(k, g). let gap = diff_dias (map Data_Real g)
                    in (k, fillna0 (agg_max gap), fillna0 (agg_mean gap), fillna0 (agg_min gap)))
       (grupos df_melted)"

text \<open>Line 134: \<^verbatim>\<open>grupos.size().to_frame(name='dias_com_dados')\<close>.\<close>

definition contagem_dias :: "diario list \<Rightarrow> ((int \<times> int) \<times> int) list" where
  "contagem_dias df_melted = map (\<lambda>(k, g). (k, int (length g))) (grupos df_melted)"

text \<open>
  Line 141: the left merge with the sampled stations on \<^verbatim>\<open>EstacaoCodigo\<close> gives one row
  for every sampled row with that code, and one row with a missing \<^verbatim>\<open>estado\<close> when there
  is none.
\<close>

definition merge_estado :: "(string \<times> int) list \<Rightarrow> int \<Rightarrow> string option list" where
  "merge_estado estacoes_sorteadas cod =
     (let achadas = filter (\<lambda>p. snd p = cod) estacoes_sorteadas
      in if achadas = [] then [None] else map (\<lambda>p. Some (fst p)) achadas)"

text \<open>\<^verbatim>\<open>Series.round(2)\<close>.\<close>

definition round2 :: "rat \<Rightarrow> rat" where
  "round2 x = of_int (round_half_even (x * 100)) / 100"

text \<open>
  The returned table, \<^verbatim>\<open>df_final[colunas_finais]\<close>. \<open>Completude\<close> is the column
  \<^verbatim>\<open>Completude_%\<close>, and \<open>estado_merge\<close> is the column \<^verbatim>\<open>estado\<close> that the merge brings.
\<close>

record metrica = chave +
  estado_merge :: "string option"
  Completude :: rat
  Intervalo_Max :: rat
  Intervalo_Medio :: rat
  dias_com_dados :: int

text \<open>
  Lines 122-154. \<^verbatim>\<open>contagem_dias.join(resumo_intervalos)\<close> joins two tables that have the
  same index, the groups, in the same order, so it pairs them row by row. Then come the
  merge, \<^verbatim>\<open>total_dias_ano\<close>, the completeness percentage and the two roundings.
\<close>

definition agregar :: "(string \<times> int) list \<Rightarrow> diario list \<Rightarrow> metrica list" where
  "agregar estacoes_sorteadas df_melted =
     concat (map (\<lambda>((k, dias), (k', imax, imedio, imin)).
         map (\<lambda>uf. \<lparr>EstacaoCodigo = fst k, Ano = snd k, estado_merge = uf,
                     Completude = round2 (of_int dias / of_int (get_dias_ano (snd k)) * 100),
                     Intervalo_Max = imax, Intervalo_Medio = round2 imedio,
                     dias_com_dados = dias\<rparr>)
           (merge_estado estacoes_sorteadas (fst k)))
       (zip (contagem_dias df_melted) (resumo_intervalos df_melted)))"

section \<open>The pipeline\<close>

text \<open>
  \<^verbatim>\<open>processar_dados_complexos(df_input, sample_frac)\<close>, lines 74-155. The sample is drawn
  with \<^verbatim>\<open>random_state=42\<close>. The function returns the metrics table and the two messages,
  which are modelled by the numbers they print.
\<close>

definition processar_dados_complexos ::
  "'g gerador \<Rightarrow> dataframe \<Rightarrow> rat \<Rightarrow> erro + (metrica list \<times> int \<times> int)" where
  "processar_dados_complexos G df_input sample_frac =
     (case amostragem G 42 df_input sample_frac of
        Inl e \<Rightarrow> Inl e
      | Inr estacoes_sorteadas \<Rightarrow>
          (case normalizar (columns df_input)
                  (isin_sorteadas estacoes_sorteadas (linhas df_input)) of
             Inl e \<Rightarrow> Inl e
           | Inr (df_melted, msg_duplicatas_mes, msg_duplicatas_dia) \<Rightarrow>
               Inr (agregar estacoes_sorteadas df_melted,
                    msg_duplicatas_mes, msg_duplicatas_dia)))"

section \<open>Stability evaluator\<close>

text \<open>
  \<^verbatim>\<open>executar_teste_estabilidade(df_input, sample_frac)\<close>, lines 240-301. The body of the
  loop, lines 248-294, repeats the sampling and the cleaning for its seed (there is no
  sorting, and \<^verbatim>\<open>melt\<close> does not have \<^verbatim>\<open>estado\<close> among its \<^verbatim>\<open>id_vars\<close>; the model
  of the melted rows carries the column, which nothing reads afterwards), counts
  the rows of every station and year, and gives the column \<^verbatim>\<open>Completude_%\<close>, which is
  not rounded here. \<^verbatim>\<open>Series.mean()\<close> of an empty column is NaN.
\<close>

definition completude_seed :: "'g gerador \<Rightarrow> dataframe \<Rightarrow> rat \<Rightarrow> int \<Rightarrow> erro + rat list" where
  "completude_seed G df_input sample_frac seed =
     (case amostragem G seed df_input sample_frac of
        Inl e \<Rightarrow> Inl e
      | Inr estacoes_sorteadas \<Rightarrow>
          (case limpar id_vars_teste (columns df_input)
                  (isin_sorteadas estacoes_sorteadas (linhas df_input)) of
             Inl e \<Rightarrow> Inl e
           | Inr (df_melted, msg_duplicatas_mes, msg_duplicatas_dia) \<Rightarrow>
               Inr (map (\<lambda>(k, dias). of_int dias / of_int (get_dias_ano_teste (snd k)) * 100)
                      (contagem_dias df_melted))))"

definition mean :: "rat list \<Rightarrow> rat option" where
  "mean xs = (if xs = [] then None else Some (sum_list xs / of_nat (length xs)))"

record resultado =
  Random_State :: int
  Media_Completude :: "rat option"

fun testar_seeds ::
  "'g gerador \<Rightarrow> dataframe \<Rightarrow> rat \<Rightarrow> int list \<Rightarrow> resultado list \<Rightarrow> erro + resultado list" where
  "testar_seeds G df_input sample_frac [] resultados_temp = Inr resultados_temp"
| "testar_seeds G df_input sample_frac (seed # seeds) resultados_temp =
     (case completude_seed G df_input sample_frac seed of
        Inl e \<Rightarrow> Inl e
      | Inr completude \<Rightarrow>
          testar_seeds G df_input sample_frac seeds
            (resultados_temp @ [\<lparr>Random_State = seed, Media_Completude = mean completude\<rparr>]))"

definition seeds_para_testar :: "int list" where
  "seeds_para_testar = [42, 1, 100, 2024, 999]"

definition executar_teste_estabilidade ::
  "'g gerador \<Rightarrow> dataframe \<Rightarrow> rat \<Rightarrow> erro + resultado list" where
  "executar_teste_estabilidade G df_input sample_frac =
     testar_seeds G df_input sample_frac seeds_para_testar []"

section \<open>Example inputs\<close>

text \<open>
  A small generator and a small table, on which the definitions can be evaluated. The
  generator draws the identity permutation rotated by its state, and advances the state by
  one. The table has three stations in \<open>SP\<close> and one in \<open>RJ\<close>; its third row repeats the
  month of the first, and day 30 of February is not a date.
\<close>

definition exemplo_gerador :: "nat gerador" where
  "exemplo_gerador =
     \<lparr>RandomState = (\<lambda>seed. nat \<bar>seed\<bar>), permutation = (\<lambda>g n. (rotate g [0..<n], Suc g))\<rparr>"

definition exemplo_linhas :: "linha list" where
  "exemplo_linhas =
     [\<lparr>EstacaoCodigo = 1, Ano = 2023, estado = ''SP'', Mes = 2,
        Chuva = (\<lambda>c. if c = ''Chuva01'' then Some 5 else if c = ''Chuva03'' then Some 0
                       else if c = ''Chuva10'' then Some 4
                       else if c = ''Chuva30'' then Some 1 else None)\<rparr>,
      \<lparr>EstacaoCodigo = 4, Ano = 2024, estado = ''RJ'', Mes = 2,
        Chuva = (\<lambda>c. if c = ''Chuva29'' then Some 5 else None)\<rparr>,
      \<lparr>EstacaoCodigo = 1, Ano = 2023, estado = ''SP'', Mes = 2,
        Chuva = (\<lambda>c. if c = ''Chuva01'' then Some 7 else None)\<rparr>,
      \<lparr>EstacaoCodigo = 2, Ano = 2023, estado = ''SP'', Mes = 1,
        Chuva = (\<lambda>c. if c = ''Chuva01'' then Some 2 else None)\<rparr>,
      \<lparr>EstacaoCodigo = 3, Ano = 2023, estado = ''SP'', Mes = 1,
        Chuva = (\<lambda>c. if c = ''Chuva03'' then Some 2 else None)\<rparr>]"

definition exemplo_columns :: "string list" where
  "exemplo_columns =
     [''EstacaoCodigo'', ''estado'', ''Ano'', ''Mes'',
      ''Chuva01'', ''Chuva03'', ''Chuva10'', ''Chuva29'', ''Chuva30'']"

definition exemplo_df :: dataframe where
  "exemplo_df = \<lparr>columns = exemplo_columns, linhas = exemplo_linhas\<rparr>"

text \<open>The normalized observations of the example table, when every station is sampled.\<close>

definition exemplo_df_melted :: "diario list" where
  "exemplo_df_melted =
     [\<lparr>EstacaoCodigo = 1, Ano = 2023, estado = ''SP'', Mes = 2,
        Dia_str = ''Chuva01'', Valor = Some 5, Dia = 1, Data_Real = 19389\<rparr>,
      \<lparr>EstacaoCodigo = 1, Ano = 2023, estado = ''SP'', Mes = 2,
        Dia_str = ''Chuva03'', Valor = Some 0, Dia = 3, Data_Real = 19391\<rparr>,
      \<lparr>EstacaoCodigo = 1, Ano = 2023, estado = ''SP'', Mes = 2,
        Dia_str = ''Chuva10'', Valor = Some 4, Dia = 10, Data_Real = 19398\<rparr>,
      \<lparr>EstacaoCodigo = 2, Ano = 2023, estado = ''SP'', Mes = 1,
        Dia_str = ''Chuva01'', Valor = Some 2, Dia = 1, Data_Real = 19358\<rparr>,
      \<lparr>EstacaoCodigo = 3, Ano = 2023, estado = ''SP'', Mes = 1,
        Dia_str = ''Chuva03'', Valor = Some 2, Dia = 3, Data_Real = 19360\<rparr>,
      \<lparr>EstacaoCodigo = 4, Ano = 2024, estado = ''RJ'', Mes = 2,
        Dia_str = ''Chuva29'', Valor = Some 5, Dia = 29, Data_Real = 19782\<rparr>]"

text \<open>The metrics table of the example table, when every station is sampled.\<close>

definition exemplo_df_final :: "metrica list" where
  "exemplo_df_final =
     [\<lparr>EstacaoCodigo = 1, Ano = 2023, estado_merge = Some ''SP'', Completude = 41 / 50,
        Intervalo_Max = 7, Intervalo_Medio = 9 / 2, dias_com_dados = 3\<rparr>,
      \<lparr>EstacaoCodigo = 2, Ano = 2023, estado_merge = Some ''SP'', Completude = 27 / 100,
        Intervalo_Max = 0, Intervalo_Medio = 0, dias_com_dados = 1\<rparr>,
      \<lparr>EstacaoCodigo = 3, Ano = 2023, estado_merge = Some ''SP'', Completude = 27 / 100,
        Intervalo_Max = 0, Intervalo_Medio = 0, dias_com_dados = 1\<rparr>,
      \<lparr>EstacaoCodigo = 4, Ano = 2024, estado_merge = Some ''RJ'', Completude = 27 / 100,
        Intervalo_Max = 0, Intervalo_Medio = 0, dias_com_dados = 1\<rparr>]"


definition exemplo_df_sem_Ano :: dataframe where
  "exemplo_df_sem_Ano =
     \<lparr>columns = [''EstacaoCodigo'', ''estado'', ''Mes'', ''Chuva01''], linhas = exemplo_linhas\<rparr>"


section \<open>Auxiliary facts\<close>

lemma set_drop_duplicates: "set (drop_duplicates f xs) \<subseteq> set xs"
  by (induction f xs rule: drop_duplicates.induct) auto

lemma distinct_map_drop_duplicates: "distinct (map f (drop_duplicates f xs))"
proof (induction f xs rule: drop_duplicates.induct)
  case (1 f)
  show ?case by simp
next
  case (2 f x xs)
  have "f x \<notin> f ` set (drop_duplicates f (filter (\<lambda>y. f y \<noteq> f x) xs))"
    using set_drop_duplicates [of f "filter (\<lambda>y. f y \<noteq> f x) xs"] by auto
  with 2 show ?case by simp
qed

lemma length_drop_duplicates: "length (drop_duplicates f xs) \<le> length xs"
proof (induction f xs rule: drop_duplicates.induct)
  case (1 f)
  show ?case by simp
next
  case (2 f x xs)
  show ?case
    using le_trans [OF 2 length_filter_le] by simp
qed

lemma colunas_chuva_dias:
  "list_all (\<lambda>c. case astype_int (str_replace_vazio ''Chuva'' c) of
       None \<Rightarrow> False | Some d \<Rightarrow> 1 \<le> d \<and> d \<le> 31) colunas_chuva"
  by code_simp

lemma astype_int_colunas_chuva:
  assumes "c \<in> set colunas_chuva"
  shows "\<exists>d. astype_int (str_replace_vazio ''Chuva'' c) = Some d"
  using colunas_chuva_dias assms
  by (auto simp: list_all_iff split: option.splits)

lemma converter_Dia_total:
  assumes "\<forall>r \<in> set rs. Dia_str r \<in> set colunas_chuva"
  shows "\<exists>ds. converter_Dia rs = Inr ds"
  using assms
proof (induction rs)
  case Nil
  show ?case by simp
next
  case (Cons r rs)
  then obtain ds where "converter_Dia rs = Inr ds"
    by auto
  moreover obtain d where "astype_int (str_replace_vazio ''Chuva'' (Dia_str r)) = Some d"
    using Cons.prems astype_int_colunas_chuva by auto
  ultimately show ?case by simp
qed

lemma Dia_str_melt:
  assumes "r \<in> set (melt value_vars df)"
  shows "Dia_str r \<in> set value_vars"
  using assms by (auto simp: melt_def)

lemma datas_validas_total:
  assumes "''EstacaoCodigo'' \<in> set cols" and "''Ano'' \<in> set cols" and "''Mes'' \<in> set cols"
    and "set id_vars \<subseteq> set cols"
  shows "\<exists>df_datas n. datas_validas id_vars cols df = Inr (df_datas, n)"
proof -
  let ?m = "filter (\<lambda>r. Valor r \<noteq> None)
      (melt (colunas_existentes cols) (drop_duplicates (\<lambda>r. (EstacaoCodigo r, Ano r, Mes r)) df))"
  have "\<forall>r \<in> set ?m. Dia_str r \<in> set colunas_chuva"
    using Dia_str_melt by (fastforce simp: colunas_existentes_def)
  then obtain ds where "converter_Dia ?m = Inr ds"
    using converter_Dia_total by blast
  then show ?thesis
    using assms by (simp add: datas_validas_def Let_def)
qed

lemma criar_Data_Real_valida:
  assumes "r \<in> set (criar_Data_Real ds)"
  shows "to_datetime (Ano r) (Mes r) (Dia r) = Some (Data_Real r)"
  using assms
  by (auto simp: criar_Data_Real_def List.map_filter_def split: option.splits)

lemma datas_validas_valida:
  assumes "datas_validas id_vars cols df = Inr (df_datas, n)" and "r \<in> set df_datas"
  shows "to_datetime (Ano r) (Mes r) (Dia r) = Some (Data_Real r)"
  using assms
  by (auto simp: datas_validas_def Let_def criar_Data_Real_valida split: if_splits sum.splits)

lemma limpar_total:
  assumes "''EstacaoCodigo'' \<in> set cols" and "''Ano'' \<in> set cols" and "''Mes'' \<in> set cols"
    and "set id_vars \<subseteq> set cols"
  shows "\<exists>out. limpar id_vars cols df = Inr out"
  using datas_validas_total [OF assms, of df]
  by (auto simp: limpar_def Let_def)

lemma normalizar_total:
  assumes "''EstacaoCodigo'' \<in> set cols" and "''estado'' \<in> set cols"
    and "''Ano'' \<in> set cols" and "''Mes'' \<in> set cols"
  shows "\<exists>out. normalizar cols df = Inr out"
proof -
  have "set id_vars_processar \<subseteq> set cols"
    using assms by (simp add: id_vars_processar_def)
  from limpar_total [OF assms(1,3,4) this, of df] show ?thesis
    by (auto simp: normalizar_def)
qed

lemma limpar_Inr:
  assumes "limpar id_vars cols df = Inr (df_melted, msg_mes, msg_dia)"
  shows "\<exists>df_datas. datas_validas id_vars cols df = Inr (df_datas, msg_mes)
     \<and> df_melted = drop_duplicates (\<lambda>r. (EstacaoCodigo r, Data_Real r)) df_datas
     \<and> msg_dia = int (length df_datas) - int (length df_melted)"
  using assms
  by (auto simp: limpar_def Let_def split: sum.splits)

lemma normalizar_Inr:
  assumes "normalizar cols df = Inr (df_melted, msg_mes, msg_dia)"
  shows "\<exists>df_limpo. limpar id_vars_processar cols df = Inr (df_limpo, msg_mes, msg_dia)
     \<and> df_melted = sort_key (\<lambda>r. (EstacaoCodigo r, Data_Real r)) df_limpo"
  using assms
  by (auto simp: normalizar_def split: sum.splits)





lemma round_half_even_nonneg:
  assumes "0 \<le> x"
  shows "0 \<le> round_half_even x"
proof -
  have "0 \<le> \<lfloor>x\<rfloor>"
    using assms by simp
  then show ?thesis
    by (auto simp: round_half_even_def Let_def)
qed

lemma round_half_even_of_int: "round_half_even (of_int n) = n"
  by (simp add: round_half_even_def)


lemma round2_zero: "round2 0 = 0"
  using round_half_even_of_int [of 0] by (simp add: round2_def)

lemma grupos_mem:
  assumes "(k, g) \<in> set (grupos df_melted)"
  shows "g = filter (\<lambda>r. (EstacaoCodigo r, Ano r) = k) df_melted \<and> g \<noteq> []"
proof -
  from assms have g: "g = filter (\<lambda>r. (EstacaoCodigo r, Ano r) = k) df_melted"
    and "k \<in> set (map (\<lambda>r. (EstacaoCodigo r, Ano r)) df_melted)"
    by (auto simp: grupos_def)
  then obtain r where "r \<in> set df_melted" "(EstacaoCodigo r, Ano r) = k"
    by auto
  then have "r \<in> set g"
    unfolding g by simp
  then have "g \<noteq> []"
    by (cases g) auto
  with g show ?thesis by blast
qed

lemma resumo_intervalos_mem:
  assumes "(k, imax, imedio, imin) \<in> set (resumo_intervalos df_melted)"
  shows "\<exists>g. (k, g) \<in> set (grupos df_melted)
     \<and> imax = fillna0 (agg_max (diff_dias (map Data_Real g)))
     \<and> imedio = fillna0 (agg_mean (diff_dias (map Data_Real g)))
     \<and> imin = fillna0 (agg_min (diff_dias (map Data_Real g)))"
  using assms by (auto simp: resumo_intervalos_def Let_def)

lemma agregar_mem:
  assumes "m \<in> set (agregar estacoes_sorteadas df_melted)"
  shows "\<exists>g. ((EstacaoCodigo m, Ano m), g) \<in> set (grupos df_melted)
     \<and> dias_com_dados m = int (length g)
     \<and> Completude m = round2 (of_int (dias_com_dados m) / of_int (get_dias_ano (Ano m)) * 100)
     \<and> Intervalo_Max m = fillna0 (agg_max (diff_dias (map Data_Real g)))
     \<and> Intervalo_Medio m = round2 (fillna0 (agg_mean (diff_dias (map Data_Real g))))"
proof -
  have z: "zip (contagem_dias df_melted) (resumo_intervalos df_melted)
      = map (\<lambda>(k, g). ((k, int (length g)),
               (k, fillna0 (agg_max (diff_dias (map Data_Real g))),
                   fillna0 (agg_mean (diff_dias (map Data_Real g))),
                   fillna0 (agg_min (diff_dias (map Data_Real g)))))) (grupos df_melted)"
    by (simp add: contagem_dias_def resumo_intervalos_def zip_map_map zip_same_conv_map
        case_prod_unfold Let_def)
  from assms show ?thesis
    unfolding agregar_def z by auto
qed

lemma notna_diff_dias:
  "notna (diff_dias (x # xs)) = map (\<lambda>(a, b). b - a) (zip (x # xs) xs)"
proof -
  have "List.map_filter id (map (\<lambda>(a, b). Some (b - a)) ps) = map (\<lambda>(a, b). b - a) ps"
    for ps :: "(int \<times> int) list"
    by (induction ps) auto
  then show ?thesis
    by (simp add: notna_def)
qed

lemma sum_list_diff:
  "sum_list (map (\<lambda>(a, b). b - a) (zip (x # xs) xs)) = last (x # xs) - (x::int)"
  by (induction xs arbitrary: x) auto

lemma normalizar_distinct:
  assumes "normalizar cols df = Inr (df_melted, msg_mes, msg_dia)"
  shows "distinct (map (\<lambda>r. (EstacaoCodigo r, Data_Real r)) df_melted)"
proof -
  let ?k = "\<lambda>r::diario. (EstacaoCodigo r, Data_Real r)"
  obtain df_limpo where l: "limpar id_vars_processar cols df = Inr (df_limpo, msg_mes, msg_dia)"
    and s: "df_melted = sort_key ?k df_limpo"
    using normalizar_Inr [OF assms] by blast
  obtain df_datas where dd: "df_limpo = drop_duplicates ?k df_datas"
    using limpar_Inr [OF l] by blast
  have "distinct (map ?k df_limpo)"
    unfolding dd by (rule distinct_map_drop_duplicates)
  then show ?thesis
    unfolding s by (simp add: distinct_map)
qed



lemma processar_Inr:
  assumes "processar_dados_complexos G df_input sample_frac = Inr (df_final, msg_mes, msg_dia)"
  shows "\<exists>estacoes_sorteadas df_melted.
       amostragem G 42 df_input sample_frac = Inr estacoes_sorteadas
     \<and> normalizar (columns df_input) (isin_sorteadas estacoes_sorteadas (linhas df_input))
         = Inr (df_melted, msg_mes, msg_dia)
     \<and> df_final = agregar estacoes_sorteadas df_melted"
  using assms
  by (auto simp: processar_dados_complexos_def split: sum.splits)


lemma round_half_even_le:
  assumes "x \<le> of_int n"
  shows "round_half_even x \<le> n"
proof -
  have f: "\<lfloor>x\<rfloor> \<le> n"
    using assms by (simp add: floor_le_iff)
  show ?thesis
  proof (cases "\<lfloor>x\<rfloor> = n")
    case True
    then have "x - of_int \<lfloor>x\<rfloor> \<le> 0"
      using assms by simp
    then show ?thesis
      using True by (simp add: round_half_even_def Let_def)
  next
    case False
    with f have "\<lfloor>x\<rfloor> + 1 \<le> n"
      by simp
    then show ?thesis
      using f by (auto simp: round_half_even_def Let_def)
  qed
qed

lemma gerador_ok_length:
  assumes "gerador_ok G"
  shows "length (fst (permutation G g n)) = n"
proof -
  have "distinct (fst (permutation G g n))" "set (fst (permutation G g n)) = {0..<n}"
    using assms by (simp_all add: gerador_ok_def)
  then show ?thesis
    using distinct_card by fastforce
qed

lemma sample_size_le:
  assumes "0 \<le> fracao" and "fracao \<le> 1"
  shows "nat (round_half_even (fracao * of_nat n)) \<le> n"
proof -
  have "fracao * of_nat n \<le> 1 * of_nat n"
    using assms(2) by (rule mult_right_mono) simp
  then have "fracao * of_nat n \<le> of_int (int n)"
    by simp
  then have "round_half_even (fracao * of_nat n) \<le> int n"
    by (rule round_half_even_le)
  then show ?thesis by simp
qed

lemma sample_grupos_count:
  assumes ok: "gerador_ok G" and f0: "0 \<le> fracao" and f1: "fracao \<le> 1"
    and hom: "\<forall>grp \<in> set grps. (\<forall>p \<in> set grp. fst p = R) \<or> (\<forall>p \<in> set grp. fst p \<noteq> R)"
  shows "\<exists>s. sample_grupos G g fracao grps = Inr s
     \<and> int (length (filter (\<lambda>p. fst p = R) s))
       = (\<Sum>grp\<leftarrow>grps. if (\<forall>p \<in> set grp. fst p = R)
                          then round_half_even (fracao * of_nat (length grp)) else 0)"
  using hom
proof (induction grps arbitrary: g)
  case Nil
  show ?case by simp
next
  case (Cons grp resto)
  let ?n = "length grp"
  let ?k = "nat (round_half_even (fracao * of_nat ?n))"
  let ?perm = "fst (permutation G g ?n)"
  let ?smp = "take ?k ?perm"
  have set_perm: "set ?perm = {0..<?n}"
    using ok by (simp add: gerador_ok_def)
  have lp: "length ?perm = ?n"
    using ok by (rule gerador_ok_length)
  have k: "?k \<le> ?n"
    using f0 f1 by (rule sample_size_le)
  have r0: "0 \<le> round_half_even (fracao * of_nat ?n)"
    using f0 by (intro round_half_even_nonneg) simp
  have ls: "length ?smp = ?k"
    using k lp by simp
  have inb: "\<forall>i \<in> set ?smp. i < ?n"
    using set_perm by (auto dest: in_set_takeD)
  then have noerr: "\<not> (\<exists>i \<in> set ?smp. ?n \<le> i)"
    by auto
  obtain s where s: "sample_grupos G (snd (permutation G g ?n)) fracao resto = Inr s"
    and c: "int (length (filter (\<lambda>p. fst p = R) s))
       = (\<Sum>grp\<leftarrow>resto. if (\<forall>p \<in> set grp. fst p = R)
                          then round_half_even (fracao * of_nat (length grp)) else 0)"
    using Cons.IH [of "snd (permutation G g ?n)"] Cons.prems by auto
  have res: "sample_grupos G g fracao (grp # resto) = Inr (map (\<lambda>i. grp ! i) ?smp @ s)"
    using noerr s by (simp add: Let_def)
  have mem: "\<forall>p \<in> set (map (\<lambda>i. grp ! i) ?smp). p \<in> set grp"
    using inb by auto
  have "int (length (filter (\<lambda>p. fst p = R) (map (\<lambda>i. grp ! i) ?smp)))
      = (if (\<forall>p \<in> set grp. fst p = R) then round_half_even (fracao * of_nat ?n) else 0)"
  proof (cases "\<forall>p \<in> set grp. fst p = R")
    case True
    then have "filter (\<lambda>p. fst p = R) (map (\<lambda>i. grp ! i) ?smp) = map (\<lambda>i. grp ! i) ?smp"
      using mem by (intro filter_True) blast
    then show ?thesis
      unfolding if_P [OF True] using ls r0 by simp
  next
    case False
    then have "\<forall>p \<in> set grp. fst p \<noteq> R"
      using Cons.prems by auto
    then have "filter (\<lambda>p. fst p = R) (map (\<lambda>i. grp ! i) ?smp) = []"
      using mem by (intro filter_False) blast
    then show ?thesis
      unfolding if_not_P [OF False] by simp
  qed
  then show ?case
    using res c by simp
qed

lemma sample_grupos_distinct:
  assumes ok: "gerador_ok G" and d: "distinct (concat grps)"
    and s: "sample_grupos G g fracao grps = Inr s"
  shows "distinct s \<and> set s \<subseteq> set (concat grps)"
  using d s
proof (induction grps arbitrary: g s)
  case Nil
  then show ?case by simp
next
  case (Cons grp resto)
  let ?n = "length grp"
  let ?perm = "fst (permutation G g ?n)"
  let ?smp = "take (nat (round_half_even (fracao * of_nat ?n))) ?perm"
  from Cons.prems(2) obtain s' where inb': "\<forall>i \<in> set ?smp. \<not> ?n \<le> i"
    and s': "sample_grupos G (snd (permutation G g ?n)) fracao resto = Inr s'"
    and s: "s = map (\<lambda>i. grp ! i) ?smp @ s'"
    by (auto simp: Let_def split: if_splits sum.splits)
  from inb' have inb: "\<forall>i \<in> set ?smp. i < ?n"
    by auto
  have dg: "distinct grp" and dr: "distinct (concat resto)"
    and dj: "set grp \<inter> set (concat resto) = {}"
    using Cons.prems(1) by auto
  have ih: "distinct s'" "set s' \<subseteq> set (concat resto)"
    using Cons.IH [OF dr s'] by auto
  have "distinct ?perm"
    using ok by (simp add: gerador_ok_def)
  then have "distinct ?smp"
    by (rule distinct_take)
  moreover have "inj_on (\<lambda>i. grp ! i) (set ?smp)"
    using dg inb by (intro inj_on_nth) auto
  ultimately have d1: "distinct (map (\<lambda>i. grp ! i) ?smp)"
    by (simp add: distinct_map)
  have sub: "set (map (\<lambda>i. grp ! i) ?smp) \<subseteq> set grp"
    using inb by auto
  show ?case
    unfolding s using d1 ih sub dj by auto
qed

lemma distinct_concat_filter_fst:
  assumes "distinct ks" and "distinct us"
  shows "distinct (concat (map (\<lambda>k. filter (\<lambda>p. fst p = k) us) ks))"
  using assms(1)
proof (induction ks)
  case Nil
  show ?case by simp
next
  case (Cons k ks)
  have "set (filter (\<lambda>p. fst p = k) us)
      \<inter> set (concat (map (\<lambda>k. filter (\<lambda>p. fst p = k) us) ks)) = {}"
    using Cons.prems by auto
  then show ?case
    using Cons assms(2) by simp
qed

lemma distinct_concat_groupby_estado:
  assumes "distinct us"
  shows "distinct (concat (groupby_estado us))"
  unfolding groupby_estado_def
  using distinct_concat_filter_fst [of "sort (remdups (map fst us))" us] assms
  by simp

lemma set_concat_groupby_estado: "set (concat (groupby_estado us)) = set us"
  by (auto simp: groupby_estado_def)

lemma groupby_estado_homogeneo:
  assumes "grp \<in> set (groupby_estado us)"
  shows "(\<forall>p \<in> set grp. fst p = R) \<or> (\<forall>p \<in> set grp. fst p \<noteq> R)"
  using assms by (auto simp: groupby_estado_def)

lemma sum_list_groupby_estado:
  assumes z: "F 0 = (0::int)"
  shows "(\<Sum>grp\<leftarrow>groupby_estado us. if (\<forall>p \<in> set grp. fst p = R) then F (length grp) else 0)
     = F (length (filter (\<lambda>p. fst p = R) us))"
proof -
  let ?ks = "sort (remdups (map fst us))"
  let ?c = "F (length (filter (\<lambda>p. fst p = R) us))"
  have "(\<Sum>grp\<leftarrow>groupby_estado us. if (\<forall>p \<in> set grp. fst p = R) then F (length grp) else 0)
      = (\<Sum>k\<leftarrow>?ks. if (\<forall>p \<in> set (filter (\<lambda>p. fst p = k) us). fst p = R)
                     then F (length (filter (\<lambda>p. fst p = k) us)) else 0)"
    by (simp add: groupby_estado_def comp_def)
  also have "\<dots> = (\<Sum>k\<leftarrow>?ks. if k = R then ?c else 0)"
  proof (rule arg_cong [where f = sum_list], rule map_cong [OF refl])
    fix k
    assume "k \<in> set ?ks"
    then obtain p where p: "p \<in> set us" "fst p = k"
      by auto
    have "(\<forall>p \<in> set (filter (\<lambda>p. fst p = k) us). fst p = R) = (k = R)"
    proof
      assume a: "\<forall>p \<in> set (filter (\<lambda>p. fst p = k) us). fst p = R"
      have "p \<in> set (filter (\<lambda>p. fst p = k) us)"
        using p by simp
      with a have "fst p = R"
        by blast
      with p show "k = R"
        by simp
    next
      assume "k = R"
      then show "\<forall>p \<in> set (filter (\<lambda>p. fst p = k) us). fst p = R"
        by simp
    qed
    then show "(if (\<forall>p \<in> set (filter (\<lambda>p. fst p = k) us). fst p = R)
                then F (length (filter (\<lambda>p. fst p = k) us)) else 0)
        = (if k = R then ?c else 0)"
      by auto
  qed
  also have "\<dots> = (\<Sum>k\<in>set ?ks. if k = R then ?c else 0)"
    by (rule sum_list_distinct_conv_sum_set) simp
  also have "\<dots> = (if R \<in> set ?ks then ?c else 0)"
    by (simp add: sum.delta)
  also have "\<dots> = ?c"
  proof (cases "R \<in> set ?ks")
    case True
    then show ?thesis by simp
  next
    case False
    then have "filter (\<lambda>p. fst p = R) us = []"
      by (auto simp: filter_empty_conv)
    then show ?thesis
      using False z by simp
  qed
  finally show ?thesis .
qed

lemma distinct_estacoes_unicas: "distinct (estacoes_unicas df)"
  using distinct_map_drop_duplicates [of id] by (simp add: estacoes_unicas_def)

lemma groupby_estado_sample_ok:
  assumes ok: "gerador_ok G" and f0: "0 \<le> fracao" and f1: "fracao \<le> 1"
  shows "\<exists>s. groupby_estado_sample G seed fracao us = Inr s
     \<and> (\<forall>R. int (length (filter (\<lambda>p. fst p = R) s))
            = round_half_even (fracao * of_nat (length (filter (\<lambda>p. fst p = R) us))))"
proof (cases "us = []")
  case True
  then show ?thesis
    by (simp add: groupby_estado_sample_def round_half_even_def)
next
  case False
  let ?g = "RandomState G seed"
  have e: "groupby_estado_sample G seed fracao us
      = sample_grupos G ?g fracao (groupby_estado us)"
    using False f0 f1 by (simp add: groupby_estado_sample_def)
  have "\<exists>s. sample_grupos G ?g fracao (groupby_estado us) = Inr s"
    using sample_grupos_count [OF ok f0 f1, of "groupby_estado us" undefined ?g]
      groupby_estado_homogeneo by blast
  then obtain s where s: "sample_grupos G ?g fracao (groupby_estado us) = Inr s"
    by blast
  have "int (length (filter (\<lambda>p. fst p = R) s))
      = round_half_even (fracao * of_nat (length (filter (\<lambda>p. fst p = R) us)))" for R
  proof -
    have "\<forall>grp \<in> set (groupby_estado us).
        (\<forall>p \<in> set grp. fst p = R) \<or> (\<forall>p \<in> set grp. fst p \<noteq> R)"
      using groupby_estado_homogeneo by blast
    from sample_grupos_count [OF ok f0 f1 this, of ?g]
    have "int (length (filter (\<lambda>p. fst p = R) s))
       = (\<Sum>grp\<leftarrow>groupby_estado us. if (\<forall>p \<in> set grp. fst p = R)
                          then round_half_even (fracao * of_nat (length grp)) else 0)"
      using s by simp
    also have "\<dots> = round_half_even (fracao * of_nat (length (filter (\<lambda>p. fst p = R) us)))"
      by (rule sum_list_groupby_estado [where F = "\<lambda>n. round_half_even (fracao * of_nat n)"])
        (simp add: round_half_even_def)
    finally show ?thesis .
  qed
  with e s show ?thesis by simp
qed

lemma groupby_estado_sample_distinct:
  assumes ok: "gerador_ok G" and d: "distinct us"
    and s: "groupby_estado_sample G seed fracao us = Inr s"
  shows "distinct s \<and> set s \<subseteq> set us"
proof (cases "us = [] \<or> 1 < fracao \<or> fracao < 0")
  case True
  then show ?thesis
    using s by (auto simp: groupby_estado_sample_def split: if_splits)
next
  case False
  then have "sample_grupos G (RandomState G seed) fracao (groupby_estado us) = Inr s"
    using s by (simp add: groupby_estado_sample_def)
  from sample_grupos_distinct [OF ok distinct_concat_groupby_estado [OF d] this]
  show ?thesis
    by (simp only: set_concat_groupby_estado)
qed

lemma amostragem_ok:
  assumes "gerador_ok G" and "0 \<le> sample_frac" and "sample_frac \<le> 1"
    and "''estado'' \<in> set (columns df_input)" and "''EstacaoCodigo'' \<in> set (columns df_input)"
  shows "\<exists>s. amostragem G seed df_input sample_frac = Inr s
     \<and> distinct s \<and> set s \<subseteq> set (estacoes_unicas df_input)
     \<and> (\<forall>R. int (length (filter (\<lambda>p. fst p = R) s))
            = round_half_even (sample_frac
                * of_nat (length (filter (\<lambda>p. fst p = R) (estacoes_unicas df_input)))))"
proof -
  have a: "amostragem G seed df_input sample_frac
      = groupby_estado_sample G seed sample_frac (estacoes_unicas df_input)"
    using assms(4,5) by (simp add: amostragem_def)
  obtain s where s: "groupby_estado_sample G seed sample_frac (estacoes_unicas df_input) = Inr s"
    and c: "\<forall>R. int (length (filter (\<lambda>p. fst p = R) s))
            = round_half_even (sample_frac
                * of_nat (length (filter (\<lambda>p. fst p = R) (estacoes_unicas df_input))))"
    using groupby_estado_sample_ok [OF assms(1,2,3)] by blast
  have "distinct s \<and> set s \<subseteq> set (estacoes_unicas df_input)"
    using groupby_estado_sample_distinct [OF assms(1) distinct_estacoes_unicas s] .
  with a s c show ?thesis by simp
qed









lemma sample_grupos_zero: "sample_grupos G g 0 grps = Inr []"
  by (induction grps arbitrary: g) (simp_all add: Let_def round_half_even_def)

lemma amostragem_zero:
  assumes "''estado'' \<in> set (columns df_input)" and "''EstacaoCodigo'' \<in> set (columns df_input)"
  shows "amostragem G seed df_input 0 = Inr []"
  using assms by (simp add: amostragem_def groupby_estado_sample_def sample_grupos_zero)

lemma estacoes_unicas_vazio: "(estacoes_unicas df_input = []) = (linhas df_input = [])"
  by (cases "linhas df_input") (simp_all add: estacoes_unicas_def)

lemma amostragem_ValueError:
  assumes "sample_frac < 0 \<or> 1 < sample_frac"
    and "''estado'' \<in> set (columns df_input)" and "''EstacaoCodigo'' \<in> set (columns df_input)"
    and "linhas df_input \<noteq> []"
  shows "amostragem G seed df_input sample_frac = Inl ValueError"
  using assms
  by (auto simp: amostragem_def groupby_estado_sample_def estacoes_unicas_vazio)

lemma amostragem_KeyError:
  assumes "''estado'' \<notin> set (columns df_input) \<or> ''EstacaoCodigo'' \<notin> set (columns df_input)"
  shows "amostragem G seed df_input sample_frac = Inl KeyError"
  using assms by (auto simp: amostragem_def)

lemma executar_amostragem_Inl:
  assumes "amostragem G 42 df_input sample_frac = Inl e"
  shows "executar_teste_estabilidade G df_input sample_frac = Inl e"
  using assms
  by (simp add: executar_teste_estabilidade_def seeds_para_testar_def completude_seed_def)

lemma processar_amostragem_Inl:
  assumes "amostragem G 42 df_input sample_frac = Inl e"
  shows "processar_dados_complexos G df_input sample_frac = Inl e"
  using assms by (simp add: processar_dados_complexos_def)

lemma normalizar_KeyError:
  assumes "''Ano'' \<notin> set cols \<or> ''Mes'' \<notin> set cols"
  shows "normalizar cols df = Inl KeyError"
  using assms by (auto simp: normalizar_def limpar_def datas_validas_def)

section \<open>Properties\<close>

text \<open>
  Claim C9. For every integer year both helpers return 366 when the year is divisible by 4
  and (not divisible by 100, or divisible by 400), and 365 otherwise; the four years named
  by the specification come out as 366, 365, 366 and 365. The helpers are total functions
  of the year: there is no failing branch.
\<close>

theorem get_dias_ano_leap_rule:
  "get_dias_ano ano = (if 4 dvd ano \<and> (\<not> 100 dvd ano \<or> 400 dvd ano) then 366 else 365)
   \<and> get_dias_ano_teste ano = get_dias_ano ano
   \<and> get_dias_ano 2000 = 366 \<and> get_dias_ano 1900 = 365
   \<and> get_dias_ano 2024 = 366 \<and> get_dias_ano 2023 = 365"
proof -
  have "((ano mod 4 = 0 \<and> ano mod 100 \<noteq> 0) \<or> ano mod 400 = 0)
      = (4 dvd ano \<and> (\<not> 100 dvd ano \<or> 400 dvd ano))"
    by presburger
  then have "get_dias_ano ano =
      (if 4 dvd ano \<and> (\<not> 100 dvd ano \<or> 400 dvd ano) then 366 else 365)"
    unfolding get_dias_ano_def by (rule arg_cong)
  moreover have "get_dias_ano_teste ano = get_dias_ano ano"
    by (simp add: get_dias_ano_def get_dias_ano_teste_def)
  moreover have "get_dias_ano 2000 = 366" "get_dias_ano 1900 = 365"
    "get_dias_ano 2024 = 366" "get_dias_ano 2023 = 365"
    by (simp_all add: get_dias_ano_def)
  ultimately show ?thesis by simp
qed

theorem get_dias_ano_leap_rule_witness:
  "get_dias_ano (-400) = 366 \<and> get_dias_ano_teste 2100 = 365"
  using get_dias_ano_leap_rule [of "-400"] get_dias_ano_leap_rule [of 2100]
  by simp

text \<open>
  Claim C4. In the normalized sequence of observations (lines 83-119) no two observations
  share the pair of station code and date, and the sequence is sorted by that pair. The
  normalization returns for every table that has the four identifying columns.
  The number reported in
  \<^verbatim>\<open>msg_duplicatas_dia\<close> is the number of rows that the deduplication on
  \<^verbatim>\<open>(EstacaoCodigo, Data_Real)\<close> removed, counted on the table from which the rows with
  an invalid date have already been dropped: every row of that table has a date.
\<close>

theorem normalizar_sem_duplicatas_dia:
  "(normalizar cols df_amostra = Inr (df_melted, msg_duplicatas_mes, msg_duplicatas_dia)
      \<longrightarrow> distinct (map (\<lambda>r. (EstacaoCodigo r, Data_Real r)) df_melted)
        \<and> sorted (map (\<lambda>r. (EstacaoCodigo r, Data_Real r)) df_melted)
        \<and> (\<exists>df_datas. datas_validas id_vars_processar cols df_amostra
                = Inr (df_datas, msg_duplicatas_mes)
              \<and> list_all (\<lambda>r. to_datetime (Ano r) (Mes r) (Dia r) = Some (Data_Real r)) df_datas
              \<and> set df_melted \<subseteq> set df_datas
              \<and> msg_duplicatas_dia = int (length df_datas) - int (length df_melted)
              \<and> 0 \<le> msg_duplicatas_dia))
   \<and> (''EstacaoCodigo'' \<in> set cols \<and> ''estado'' \<in> set cols
        \<and> ''Ano'' \<in> set cols \<and> ''Mes'' \<in> set cols
      \<longrightarrow> (\<exists>df_melted msg_duplicatas_mes msg_duplicatas_dia.
            normalizar cols df_amostra = Inr (df_melted, msg_duplicatas_mes, msg_duplicatas_dia)))"
proof (intro conjI impI)
  assume n: "normalizar cols df_amostra = Inr (df_melted, msg_duplicatas_mes, msg_duplicatas_dia)"
  let ?k = "\<lambda>r::diario. (EstacaoCodigo r, Data_Real r)"
  obtain df_limpo where l: "limpar id_vars_processar cols df_amostra
      = Inr (df_limpo, msg_duplicatas_mes, msg_duplicatas_dia)"
    and s: "df_melted = sort_key ?k df_limpo"
    using normalizar_Inr [OF n] by blast
  obtain df_datas where d: "datas_validas id_vars_processar cols df_amostra
                = Inr (df_datas, msg_duplicatas_mes)"
    and dd: "df_limpo = drop_duplicates ?k df_datas"
    and m: "msg_duplicatas_dia = int (length df_datas) - int (length df_limpo)"
    using limpar_Inr [OF l] by blast
  show "distinct (map ?k df_melted)"
    using n by (rule normalizar_distinct)
  show "sorted (map ?k df_melted)"
    unfolding s by (rule sorted_sort_key)
  have 2: "list_all (\<lambda>r. to_datetime (Ano r) (Mes r) (Dia r) = Some (Data_Real r)) df_datas"
    using datas_validas_valida [OF d] by (simp add: list_all_iff)
  have 3: "set df_melted \<subseteq> set df_datas"
    unfolding s dd using set_drop_duplicates [of ?k df_datas] by simp
  have 4: "msg_duplicatas_dia = int (length df_datas) - int (length df_melted)"
    unfolding m s by simp
  have 5: "0 \<le> msg_duplicatas_dia"
    unfolding m dd using length_drop_duplicates [of ?k df_datas] by simp
  from 2 3 4 5 d
  show "\<exists>df_datas. datas_validas id_vars_processar cols df_amostra
                = Inr (df_datas, msg_duplicatas_mes)
      \<and> list_all (\<lambda>r. to_datetime (Ano r) (Mes r) (Dia r) = Some (Data_Real r)) df_datas
      \<and> set df_melted \<subseteq> set df_datas
      \<and> msg_duplicatas_dia = int (length df_datas) - int (length df_melted)
      \<and> 0 \<le> msg_duplicatas_dia"
    by blast
next
  assume "''EstacaoCodigo'' \<in> set cols \<and> ''estado'' \<in> set cols
        \<and> ''Ano'' \<in> set cols \<and> ''Mes'' \<in> set cols"
  then obtain out where "normalizar cols df_amostra = Inr out"
    using normalizar_total by blast
  then show "\<exists>df_melted msg_duplicatas_mes msg_duplicatas_dia.
      normalizar cols df_amostra = Inr (df_melted, msg_duplicatas_mes, msg_duplicatas_dia)"
    by (cases out) auto
qed

theorem normalizar_sem_duplicatas_dia_witness:
  "''EstacaoCodigo'' \<in> set exemplo_columns \<and> ''estado'' \<in> set exemplo_columns
   \<and> ''Ano'' \<in> set exemplo_columns \<and> ''Mes'' \<in> set exemplo_columns
   \<and> normalizar exemplo_columns exemplo_linhas = Inr (exemplo_df_melted, 1, 0)
   \<and> distinct (map (\<lambda>r. (EstacaoCodigo r, Data_Real r)) exemplo_df_melted)
   \<and> sorted (map (\<lambda>r. (EstacaoCodigo r, Data_Real r)) exemplo_df_melted)"
proof -
  have c: "''EstacaoCodigo'' \<in> set exemplo_columns" "''estado'' \<in> set exemplo_columns"
    "''Ano'' \<in> set exemplo_columns" "''Mes'' \<in> set exemplo_columns"
    by (simp_all add: exemplo_columns_def)
  have h: "normalizar exemplo_columns exemplo_linhas = Inr (exemplo_df_melted, 1, 0)"
    by code_simp
  from normalizar_sem_duplicatas_dia [of exemplo_columns exemplo_linhas exemplo_df_melted 1 0] h c
  show ?thesis
    by blast
qed



text \<open>
  Claim C6. A group of station and year that holds exactly one observation has a row in
  the table of gap statistics (lines 127-131), and that row has
  \<^verbatim>\<open>Intervalo_Max\<close>, \<^verbatim>\<open>Intervalo_Medio\<close> and \<^verbatim>\<open>Intervalo_Min\<close> all equal to 0: the
  only gap of the group is the NaN of its first row, and \<^verbatim>\<open>fillna(0)\<close> turns the NaN
  aggregates into 0. Accordingly every row of the returned metrics table with one day of
  data has \<^verbatim>\<open>Intervalo_Max\<close> and \<^verbatim>\<open>Intervalo_Medio\<close> equal to 0 (the table does not
  carry \<^verbatim>\<open>Intervalo_Min\<close>).
\<close>

theorem grupo_unitario_intervalos_zero:
  "(length (filter (\<lambda>r. (EstacaoCodigo r, Ano r) = k) df_melted) = 1
      \<longrightarrow> (k, 0, 0, 0) \<in> set (resumo_intervalos df_melted)
        \<and> (\<forall>imax imedio imin. (k, imax, imedio, imin) \<in> set (resumo_intervalos df_melted)
              \<longrightarrow> imax = 0 \<and> imedio = 0 \<and> imin = 0))
   \<and> (processar_dados_complexos G df_input sample_frac
        = Inr (df_final, msg_duplicatas_mes, msg_duplicatas_dia)
        \<and> m \<in> set df_final \<and> dias_com_dados m = 1
      \<longrightarrow> Intervalo_Max m = 0 \<and> Intervalo_Medio m = 0)"
proof (intro conjI impI)
  assume one: "length (filter (\<lambda>r. (EstacaoCodigo r, Ano r) = k) df_melted) = 1"
  let ?g = "filter (\<lambda>r. (EstacaoCodigo r, Ano r) = k) df_melted"
  obtain r where r: "?g = [r]"
    using one by (cases ?g) auto
  have z: "fillna0 (agg_max (diff_dias (map Data_Real ?g))) = 0"
    "fillna0 (agg_mean (diff_dias (map Data_Real ?g))) = 0"
    "fillna0 (agg_min (diff_dias (map Data_Real ?g))) = 0"
    unfolding r by (simp_all add: agg_max_def agg_mean_def agg_min_def notna_def fillna0_def)
  have "r \<in> set ?g"
    unfolding r by simp
  then have "k \<in> set (map (\<lambda>r. (EstacaoCodigo r, Ano r)) df_melted)"
    by auto
  then have "(k, ?g) \<in> set (grupos df_melted)"
    by (simp add: grupos_def)
  then show "(k, 0, 0, 0) \<in> set (resumo_intervalos df_melted)"
    using z by (force simp: resumo_intervalos_def Let_def)
  show "\<forall>imax imedio imin. (k, imax, imedio, imin) \<in> set (resumo_intervalos df_melted)
      \<longrightarrow> imax = 0 \<and> imedio = 0 \<and> imin = 0"
  proof (intro allI impI)
    fix imax imedio imin
    assume h: "(k, imax, imedio, imin) \<in> set (resumo_intervalos df_melted)"
    obtain g where g: "(k, g) \<in> set (grupos df_melted)"
      and v: "imax = fillna0 (agg_max (diff_dias (map Data_Real g)))"
        "imedio = fillna0 (agg_mean (diff_dias (map Data_Real g)))"
        "imin = fillna0 (agg_min (diff_dias (map Data_Real g)))"
      using resumo_intervalos_mem [OF h] by blast
    have "g = ?g"
      using grupos_mem [OF g] by simp
    then show "imax = 0 \<and> imedio = 0 \<and> imin = 0"
      using v z by simp
  qed
next
  assume a: "processar_dados_complexos G df_input sample_frac
        = Inr (df_final, msg_duplicatas_mes, msg_duplicatas_dia)
        \<and> m \<in> set df_final \<and> dias_com_dados m = 1"
  obtain estacoes_sorteadas dfm where f: "df_final = agregar estacoes_sorteadas dfm"
    using processar_Inr a by blast
  have "m \<in> set (agregar estacoes_sorteadas dfm)"
    using a f by simp
  from agregar_mem [OF this]
  obtain g :: "diario list" where d: "dias_com_dados m = int (length g)"
    and x: "Intervalo_Max m = fillna0 (agg_max (diff_dias (map Data_Real g)))"
    and y: "Intervalo_Medio m = round2 (fillna0 (agg_mean (diff_dias (map Data_Real g))))"
    by blast
  from a d have "length g = 1"
    by simp
  then obtain r where r: "g = [r]"
    by (cases g) auto
  show "Intervalo_Max m = 0"
    unfolding x r by (simp add: agg_max_def notna_def fillna0_def)
  show "Intervalo_Medio m = 0"
    unfolding y r by (simp add: agg_mean_def notna_def fillna0_def round2_zero)
qed

theorem grupo_unitario_intervalos_zero_witness:
  "((2, 2023), 0, 0, 0) \<in> set (resumo_intervalos exemplo_df_melted)
   \<and> Intervalo_Max (exemplo_df_final ! 1) = 0 \<and> Intervalo_Medio (exemplo_df_final ! 1) = 0"
proof -
  have h: "length (filter (\<lambda>r. (EstacaoCodigo r, Ano r) = (2, 2023)) exemplo_df_melted) = 1"
    by (simp add: exemplo_df_melted_def)
  have p: "processar_dados_complexos exemplo_gerador exemplo_df 1 = Inr (exemplo_df_final, 1, 0)"
    by code_simp
  have m: "exemplo_df_final ! 1 \<in> set exemplo_df_final"
    "dias_com_dados (exemplo_df_final ! 1) = 1"
    by (simp_all add: exemplo_df_final_def)
  from grupo_unitario_intervalos_zero [of "(2, 2023)" exemplo_df_melted exemplo_gerador
      exemplo_df 1 exemplo_df_final 1 0 "exemplo_df_final ! 1"] h p m
  show ?thesis
    by blast
qed

text \<open>
  Claim C10. For a group of station and year with \<open>n \<ge> 2\<close> observations, the mean gap
  before rounding is the number of days from the first to the last observation of the
  group divided by \<open>n - 1\<close>: the gap of the first row is NaN and is left out of the mean,
  and the other \<open>n - 1\<close> gaps add up to the span of the group.
\<close>

theorem intervalo_medio_telescopico:
  assumes "(k, imax, imedio, imin) \<in> set (resumo_intervalos df_melted)"
    and "g = filter (\<lambda>r. (EstacaoCodigo r, Ano r) = k) df_melted"
    and "2 \<le> length g"
  shows "imedio = of_int (Data_Real (last g) - Data_Real (hd g)) / of_nat (length g - 1)
     \<and> hd (diff_dias (map Data_Real g)) = None
     \<and> length (notna (diff_dias (map Data_Real g))) = length g - 1
     \<and> sum_list (notna (diff_dias (map Data_Real g))) = Data_Real (last g) - Data_Real (hd g)"
proof -
  obtain g' where g': "(k, g') \<in> set (grupos df_melted)"
    and v: "imedio = fillna0 (agg_mean (diff_dias (map Data_Real g')))"
    using resumo_intervalos_mem [OF assms(1)] by blast
  have "g' = g"
    using grupos_mem [OF g'] assms(2) by simp
  with v have i: "imedio = fillna0 (agg_mean (diff_dias (map Data_Real g)))"
    by simp
  obtain r rs where g: "g = r # rs" and rs: "rs \<noteq> []"
    using assms(3) by (cases g) (auto simp: Suc_le_eq)
  let ?ds = "notna (diff_dias (map Data_Real (r # rs)))"
  have n: "?ds = map (\<lambda>(a, b). b - a) (zip (Data_Real r # map Data_Real rs) (map Data_Real rs))"
    by (simp only: list.map notna_diff_dias)
  have len: "length ?ds = length (r # rs) - 1"
    unfolding n by simp
  have "sum_list ?ds = last (Data_Real r # map Data_Real rs) - Data_Real r"
    by (simp only: n sum_list_diff)
  then have sm: "sum_list ?ds = Data_Real (last (r # rs)) - Data_Real (hd (r # rs))"
    using rs by (simp add: last_map)
  have "?ds \<noteq> []"
    unfolding n using rs by (cases rs) auto
  then have "imedio = of_int (sum_list ?ds) / of_nat (length ?ds)"
    unfolding i g by (simp add: agg_mean_def fillna0_def)
  then have "imedio = of_int (Data_Real (last (r # rs)) - Data_Real (hd (r # rs)))
      / of_nat (length (r # rs) - 1)"
    by (simp only: sm len)
  moreover have "hd (diff_dias (map Data_Real (r # rs))) = None"
    by simp
  ultimately show ?thesis
    unfolding g using len sm by blast
qed

theorem intervalo_medio_telescopico_witness:
  "((1, 2023), 7, 9 / 2, 2) \<in> set (resumo_intervalos exemplo_df_melted)
   \<and> (9 / 2 :: rat) =
      of_int (Data_Real (last (filter (\<lambda>r. (EstacaoCodigo r, Ano r) = (1, 2023)) exemplo_df_melted))
            - Data_Real (hd (filter (\<lambda>r. (EstacaoCodigo r, Ano r) = (1, 2023)) exemplo_df_melted)))
      / of_nat (length (filter (\<lambda>r. (EstacaoCodigo r, Ano r) = (1, 2023)) exemplo_df_melted) - 1)"
proof -
  have h: "((1, 2023), 7, 9 / 2, 2) \<in> set (resumo_intervalos exemplo_df_melted)"
    by code_simp
  have n: "2 \<le> length (filter (\<lambda>r. (EstacaoCodigo r, Ano r) = (1, 2023)) exemplo_df_melted)"
    by (simp add: exemplo_df_melted_def)
  from intervalo_medio_telescopico [OF h refl n] h show ?thesis
    by blast
qed










text \<open>
  Claim C2, as amended. The code has no check of the fraction of its own. The fraction it
  receives is the slider position, between 1 and 100, divided by 100, which lies in
  \<open>(0, 1]\<close>. For a table with at least one row and the two station columns, a fraction
  below 0 or above 1 makes the sampling call, and with it the pipeline and the stability
  test, fail with \<^verbatim>\<open>ValueError\<close>, before a generator is created or anything else is
  computed. The fraction 0 is not rejected: the sampling returns the empty sample.
\<close>

theorem fracao_fora_do_intervalo:
  "(1 \<le> slider \<and> slider \<le> 100
      \<longrightarrow> 0 < porcentagem_amostra slider \<and> porcentagem_amostra slider \<le> 1)
   \<and> ((sample_frac < 0 \<or> 1 < sample_frac)
        \<and> ''estado'' \<in> set (columns df_input) \<and> ''EstacaoCodigo'' \<in> set (columns df_input)
        \<and> linhas df_input \<noteq> []
      \<longrightarrow> amostragem G seed df_input sample_frac = Inl ValueError
        \<and> processar_dados_complexos G df_input sample_frac = Inl ValueError
        \<and> executar_teste_estabilidade G df_input sample_frac = Inl ValueError)
   \<and> (''estado'' \<in> set (columns df_input) \<and> ''EstacaoCodigo'' \<in> set (columns df_input)
      \<longrightarrow> amostragem G seed df_input 0 = Inr [])"
proof (intro conjI impI)
  assume "1 \<le> slider \<and> slider \<le> 100"
  then show "0 < porcentagem_amostra slider" "porcentagem_amostra slider \<le> 1"
    by (simp_all add: porcentagem_amostra_def)
next
  assume a: "(sample_frac < 0 \<or> 1 < sample_frac)
        \<and> ''estado'' \<in> set (columns df_input) \<and> ''EstacaoCodigo'' \<in> set (columns df_input)
        \<and> linhas df_input \<noteq> []"
  then have v: "amostragem G s df_input sample_frac = Inl ValueError" for s
    using amostragem_ValueError by blast
  then show "amostragem G seed df_input sample_frac = Inl ValueError" .
  from v show "processar_dados_complexos G df_input sample_frac = Inl ValueError"
    by (rule processar_amostragem_Inl)
  from v show "executar_teste_estabilidade G df_input sample_frac = Inl ValueError"
    by (rule executar_amostragem_Inl)
next
  assume "''estado'' \<in> set (columns df_input) \<and> ''EstacaoCodigo'' \<in> set (columns df_input)"
  then show "amostragem G seed df_input 0 = Inr []"
    by (simp add: amostragem_zero)
qed

theorem fracao_fora_do_intervalo_witness:
  "0 < porcentagem_amostra 10 \<and> porcentagem_amostra 10 \<le> 1
   \<and> processar_dados_complexos exemplo_gerador exemplo_df 2 = Inl ValueError
   \<and> executar_teste_estabilidade exemplo_gerador exemplo_df (- 1) = Inl ValueError
   \<and> amostragem exemplo_gerador 42 exemplo_df 0 = Inr []"
proof -
  have c: "''estado'' \<in> set (columns exemplo_df)" "''EstacaoCodigo'' \<in> set (columns exemplo_df)"
    "linhas exemplo_df \<noteq> []"
    by (simp_all add: exemplo_df_def exemplo_columns_def exemplo_linhas_def)
  have p: "(1::int) \<le> 10 \<and> (10::int) \<le> 100"
    by simp
  have "(2::rat) < 0 \<or> 1 < (2::rat)" "(- 1 :: rat) < 0 \<or> 1 < (- 1 :: rat)"
    by simp_all
  with fracao_fora_do_intervalo [of 10 2 exemplo_df exemplo_gerador 42]
    fracao_fora_do_intervalo [of 10 "- 1" exemplo_df exemplo_gerador 42] c p
  show ?thesis
    by blast
qed

text \<open>
  The claim as stated fails at the fraction 0, which lies outside \<open>(0, 1]\<close>: on the
  example table the sampler does not fail but returns the empty sample.
\<close>

theorem fracao_zero_counterexample:
  "(0::rat) \<notin> {0<..1}
   \<and> linhas exemplo_df \<noteq> []
   \<and> amostragem exemplo_gerador 42 exemplo_df 0 = Inr []"
proof -
  have "amostragem exemplo_gerador 42 exemplo_df 0 = Inr []"
    by code_simp
  then show ?thesis
    by (simp add: exemplo_df_def exemplo_linhas_def)
qed


text \<open>
  Claim C3, as amended. The code has no check of the schema of its own; a missing column
  surfaces as the \<^verbatim>\<open>KeyError\<close> of the first statement that reads it. When \<^verbatim>\<open>estado\<close>
  or \<^verbatim>\<open>EstacaoCodigo\<close> is missing, that is the selection of the station columns in
  line 76, before the sampling, and the pipeline and the stability test fail. When only
  \<^verbatim>\<open>Ano\<close> or \<^verbatim>\<open>Mes\<close> is missing (and the fraction is in \<open>[0, 1]\<close>, the generator draws
  permutations), the sampling of line 77 has been performed and has returned its sample
  when the month-level deduplication of line 84 (on an empty sample, the \<^verbatim>\<open>melt\<close> of
  line 93) raises the \<^verbatim>\<open>KeyError\<close>; the pipeline returns no table.
\<close>

theorem coluna_obrigatoria_ausente:
  "(''estado'' \<notin> set (columns df_input) \<or> ''EstacaoCodigo'' \<notin> set (columns df_input)
      \<longrightarrow> amostragem G seed df_input sample_frac = Inl KeyError
        \<and> processar_dados_complexos G df_input sample_frac = Inl KeyError
        \<and> executar_teste_estabilidade G df_input sample_frac = Inl KeyError)
   \<and> (''estado'' \<in> set (columns df_input) \<and> ''EstacaoCodigo'' \<in> set (columns df_input)
        \<and> (''Ano'' \<notin> set (columns df_input) \<or> ''Mes'' \<notin> set (columns df_input))
        \<and> gerador_ok G \<and> 0 \<le> sample_frac \<and> sample_frac \<le> 1
      \<longrightarrow> (\<exists>estacoes_sorteadas. amostragem G 42 df_input sample_frac = Inr estacoes_sorteadas)
        \<and> processar_dados_complexos G df_input sample_frac = Inl KeyError)"
proof (intro conjI impI)
  assume "''estado'' \<notin> set (columns df_input) \<or> ''EstacaoCodigo'' \<notin> set (columns df_input)"
  then have k: "amostragem G s df_input sample_frac = Inl KeyError" for s
    by (rule amostragem_KeyError)
  then show "amostragem G seed df_input sample_frac = Inl KeyError" .
  from k show "processar_dados_complexos G df_input sample_frac = Inl KeyError"
    by (rule processar_amostragem_Inl)
  from k show "executar_teste_estabilidade G df_input sample_frac = Inl KeyError"
    by (rule executar_amostragem_Inl)
next
  assume a: "''estado'' \<in> set (columns df_input) \<and> ''EstacaoCodigo'' \<in> set (columns df_input)
        \<and> (''Ano'' \<notin> set (columns df_input) \<or> ''Mes'' \<notin> set (columns df_input))
        \<and> gerador_ok G \<and> 0 \<le> sample_frac \<and> sample_frac \<le> 1"
  then obtain s where s: "amostragem G 42 df_input sample_frac = Inr s"
    using amostragem_ok [of G sample_frac df_input 42] by blast
  then show "\<exists>estacoes_sorteadas. amostragem G 42 df_input sample_frac = Inr estacoes_sorteadas"
    by blast
  from a have "normalizar (columns df_input) (isin_sorteadas s (linhas df_input)) = Inl KeyError"
    by (intro normalizar_KeyError) blast
  with s show "processar_dados_complexos G df_input sample_frac = Inl KeyError"
    by (simp add: processar_dados_complexos_def)
qed

theorem coluna_obrigatoria_ausente_witness:
  "processar_dados_complexos exemplo_gerador
       (exemplo_df\<lparr>columns := [''EstacaoCodigo'', ''Ano'', ''Mes'']\<rparr>) 1 = Inl KeyError
   \<and> processar_dados_complexos exemplo_gerador exemplo_df_sem_Ano (1 / 2) = Inl KeyError"
proof -
  have ok: "gerador_ok exemplo_gerador"
    by (simp add: gerador_ok_def exemplo_gerador_def)
  have 1: "''estado'' \<notin> set (columns (exemplo_df\<lparr>columns := [''EstacaoCodigo'', ''Ano'', ''Mes'']\<rparr>))"
    by simp
  have 2: "''estado'' \<in> set (columns exemplo_df_sem_Ano)"
    "''EstacaoCodigo'' \<in> set (columns exemplo_df_sem_Ano)"
    "''Ano'' \<notin> set (columns exemplo_df_sem_Ano)"
    by (simp_all add: exemplo_df_sem_Ano_def)
  have 3: "(0::rat) \<le> 1 / 2" "(1 / 2 :: rat) \<le> 1"
    by simp_all
  from coluna_obrigatoria_ausente
      [of "exemplo_df\<lparr>columns := [''EstacaoCodigo'', ''Ano'', ''Mes'']\<rparr>" exemplo_gerador 42 1] 1
  have a: "processar_dados_complexos exemplo_gerador
       (exemplo_df\<lparr>columns := [''EstacaoCodigo'', ''Ano'', ''Mes'']\<rparr>) 1 = Inl KeyError"
    by blast
  from coluna_obrigatoria_ausente [of exemplo_df_sem_Ano exemplo_gerador 42 "1 / 2"] ok 2 3
  have b: "processar_dados_complexos exemplo_gerador exemplo_df_sem_Ano (1 / 2) = Inl KeyError"
    by blast
  from a b show ?thesis by (rule conjI)
qed

text \<open>
  The claim as stated fails on the example table without its column \<^verbatim>\<open>Ano\<close>: the
  sampling is performed and returns four stations, and only then the pipeline fails.
\<close>

theorem falha_depois_da_amostragem_counterexample:
  "amostragem exemplo_gerador 42 exemplo_df_sem_Ano 1
     = Inr [(''RJ'', 4), (''SP'', 2), (''SP'', 3), (''SP'', 1)]
   \<and> processar_dados_complexos exemplo_gerador exemplo_df_sem_Ano 1 = Inl KeyError"
proof -
  have "amostragem exemplo_gerador 42 exemplo_df_sem_Ano 1
     = Inr [(''RJ'', 4), (''SP'', 2), (''SP'', 3), (''SP'', 1)]"
    by code_simp
  moreover have "processar_dados_complexos exemplo_gerador exemplo_df_sem_Ano 1 = Inl KeyError"
    by code_simp
  ultimately show ?thesis by (rule conjI)
qed


end
